theory Spec2Isabelle
  imports Complex_Main "HOL-Library.AList"
begin

section \<open>Python strings\<close>

text \<open>
  The services are Python. A \<open>str\<close> is modelled as a \<open>string\<close> whose characters are the
  code points below 256; positions are Python \<open>int\<close>s, modelled as \<open>int\<close>, because the
  chunker computes window positions that can become negative.
\<close>

definition py_isspace :: "char \<Rightarrow> bool" where
  \<comment> \<open>\<open>str.isspace\<close> on the code points below 256: TAB..CR, FS..US, SPACE, NEL, NBSP.\<close>
  "py_isspace c = ((of_char c :: nat) \<in> {9, 10, 11, 12, 13, 28, 29, 30, 31, 32, 133, 160})"

definition py_strip :: "string \<Rightarrow> string" where
  \<comment> \<open>\<open>s.strip()\<close>: leading and trailing whitespace removed.\<close>
  "py_strip s = rev (dropWhile py_isspace (rev (dropWhile py_isspace s)))"

definition norm_index :: "int \<Rightarrow> int \<Rightarrow> int" where
  \<comment> \<open>How a slice bound is read against a sequence of length \<open>n\<close>: a negative bound counts
      from the end, and the result is clamped to \<open>0..n\<close>.\<close>
  "norm_index n i = (if i < 0 then max (i + n) 0 else min i n)"

definition py_slice :: "'a list \<Rightarrow> int \<Rightarrow> int \<Rightarrow> 'a list" where
  \<comment> \<open>\<open>s[start:end]\<close>\<close>
  "py_slice s start end =
     (let n = int (length s); a = norm_index n start; b = norm_index n end
      in take (nat (b - a)) (drop (nat a) s))"

primrec rfind_down :: "char \<Rightarrow> string \<Rightarrow> nat \<Rightarrow> nat \<Rightarrow> int" where
  \<comment> \<open>the highest position in \<open>a ..< a + k\<close> that holds \<open>c\<close>, or \<open>-1\<close>\<close>
  "rfind_down c s a 0 = - 1"
| "rfind_down c s a (Suc k) = (if s ! (a + k) = c then int (a + k) else rfind_down c s a k)"

definition py_rfind :: "string \<Rightarrow> char \<Rightarrow> int \<Rightarrow> int \<Rightarrow> int" where
  \<comment> \<open>\<open>s.rfind(c, start, end)\<close> for a one-character \<open>c\<close>: the bounds are read as slice bounds.\<close>
  "py_rfind s c start end =
     (let n = int (length s); a = norm_index n start; b = norm_index n end
      in rfind_down c s (nat a) (nat (b - a)))"

definition upper_char :: "char \<Rightarrow> char" where
  "upper_char c =
     (case map_of (zip ''abcdefghijklmnopqrstuvwxyz'' ''ABCDEFGHIJKLMNOPQRSTUVWXYZ'') c of
        Some u \<Rightarrow> u | None \<Rightarrow> c)"

definition py_upper :: "string \<Rightarrow> string" where
  \<comment> \<open>\<open>s.upper()\<close> on ASCII text\<close>
  "py_upper s = map upper_char s"

definition py_startswith :: "string \<Rightarrow> string \<Rightarrow> bool" where
  "py_startswith s p = (take (length p) s = p)"

definition py_join :: "string \<Rightarrow> string list \<Rightarrow> string" where
  \<comment> \<open>\<open>sep.join(parts)\<close>\<close>
  "py_join sep parts = concat (case parts of [] \<Rightarrow> [] | p # ps \<Rightarrow> p # map (\<lambda>q. sep @ q) ps)"

section \<open>The chunker: \<open>FileProcessor._split_text\<close>\<close>

record file_processor =
  chunk_size :: int
  overlap_size :: int

definition FileProcessor_init :: file_processor where
  \<comment> \<open>\<open>FileProcessor.__init__\<close>: 1000 characters per chunk, 200 of overlap\<close>
  "FileProcessor_init = \<lparr>chunk_size = 1000, overlap_size = 200\<rparr>"

text \<open>
  The \<open>while start < len(text)\<close> loop of \<open>_split_text\<close>. The first argument bounds the number
  of iterations: \<open>None\<close> means that the loop is still running after that many.
\<close>

fun split_loop :: "nat \<Rightarrow> file_processor \<Rightarrow> string \<Rightarrow> int \<Rightarrow> string list \<Rightarrow> string list option" where
  "split_loop 0 fp text start chunks =
     (if start < int (length text) then None else Some chunks)"
| "split_loop (Suc fuel) fp text start chunks =
     (if start < int (length text) then
        (let end0 = start + chunk_size fp;
             end1 = (if end0 < int (length text)
                     then (let last_space = py_rfind text (CHR '' '') start end0
                           in if last_space > start then last_space else end0)
                     else end0);
             chunk = py_strip (py_slice text start end1);
             chunks' = (if chunk \<noteq> [] then chunks @ [chunk] else chunks);
             start' = (if end1 < int (length text) then end1 - overlap_size fp else end1)
         in split_loop fuel fp text start' chunks')
      else Some chunks)"

definition split_text :: "nat \<Rightarrow> file_processor \<Rightarrow> string \<Rightarrow> string list option" where
  "split_text fuel fp text =
     (if int (length text) \<le> chunk_size fp then Some [text]
      else split_loop fuel fp text 0 [])"

section \<open>Records and chunks: \<open>FileProcessor._create_chunks\<close>\<close>

text \<open>
  A value found in an extracted record is either a \<open>str\<close> or something else (a number, a
  date, \<open>None\<close>, a nested list or dict). Of a value that is not a \<open>str\<close> the code observes
  the name of its type, \<open>str(v)\<close> and, where it has one, \<open>len(v)\<close>; such a value is
  represented by these three.
\<close>

datatype pyval = PStr string | POther string string "nat option"

fun py_str :: "pyval \<Rightarrow> string" where
  "py_str (PStr s) = s"
| "py_str (POther ty rendering n) = rendering"

fun py_type_name :: "pyval \<Rightarrow> string" where
  "py_type_name (PStr s) = ''str''"
| "py_type_name (POther ty rendering n) = ty"

text \<open>An extracted record is a \<open>dict\<close> with string keys (in insertion order) or a bare value.\<close>

datatype py_record = RDict "(string \<times> pyval) list" | RValue pyval

datatype py_error =
  TypeError string | AttributeError string | ValueError string | KeyError string
  | UpstreamError string

fun str_of_error :: "py_error \<Rightarrow> string" where
  "str_of_error (TypeError m) = m"
| "str_of_error (AttributeError m) = m"
| "str_of_error (ValueError m) = m"
| "str_of_error (KeyError m) = m"
| "str_of_error (UpstreamError m) = m"

definition attribute_error :: "string \<Rightarrow> string \<Rightarrow> py_error" where
  \<comment> \<open>what Python raises for \<open>v.a\<close> when the type of \<open>v\<close> has no attribute \<open>a\<close>\<close>
  "attribute_error ty a =
     AttributeError ([CHR 0x27] @ ty @ [CHR 0x27] @ '' object has no attribute ''
                     @ [CHR 0x27] @ a @ [CHR 0x27])"

definition no_len_error :: "string \<Rightarrow> py_error" where
  \<comment> \<open>what Python raises for \<open>len(v)\<close> when the type of \<open>v\<close> has no length\<close>
  "no_len_error ty =
     TypeError (''object of type '' @ [CHR 0x27] @ ty @ [CHR 0x27] @ '' has no len()'')"

record chunk_metadata =
  record_index :: nat
  chunk_index :: nat
  source_type :: pyval
  original_record :: py_record

record chunk =
  content :: string
  hash :: string
  index :: nat
  metadata :: chunk_metadata

definition record_text :: "py_record \<Rightarrow> pyval" where
  \<comment> \<open>The \<open>text\<close> of a record: its \<open>content\<close> entry as it is, or the joined \<open>key: value\<close>
      lines of the entries whose key does not start with an underscore, or \<open>str(record)\<close>.\<close>
  "record_text r =
     (case r of
        RDict d \<Rightarrow>
          (case map_of d ''content'' of
             Some v \<Rightarrow> v
           | None \<Rightarrow>
               PStr (py_join [CHR 0x0A]
                       (map (\<lambda>(k, v). k @ '': '' @ py_str v)
                          (filter (\<lambda>(k, v). \<not> py_startswith k ''_'') d))))
      | RValue v \<Rightarrow> PStr (py_str v))"

definition split_value ::
  "nat \<Rightarrow> file_processor \<Rightarrow> pyval \<Rightarrow> (py_error + pyval list) option" where
  \<comment> \<open>\<open>_split_text\<close> on whatever \<open>text\<close> is. A value without a length fails at \<open>len(text)\<close>.
      The values with a length that are not a \<open>str\<close> are lists and dicts: a short one is
      returned as the only chunk, a long one fails at \<open>text.rfind\<close> in the first iteration,
      where \<open>end < len(text)\<close> holds.\<close>
  "split_value fuel fp text =
     (case text of
        PStr s \<Rightarrow> map_option (\<lambda>cs. Inr (map PStr cs)) (split_text fuel fp s)
      | POther ty rendering None \<Rightarrow> Some (Inl (no_len_error ty))
      | POther ty rendering (Some n) \<Rightarrow>
          (if int n \<le> chunk_size fp then Some (Inr [text])
           else if 0 < n then Some (Inl (attribute_error ty ''rfind''))
           else Some (Inr [])))"

text \<open>
  The inner loop \<open>for j, chunk_text in enumerate(text_chunks)\<close>. Building a chunk first calls
  \<open>_get_content_hash\<close>, which encodes the chunk text and so needs a \<open>str\<close>, and then
  \<open>record.get\<close>, which only a \<open>dict\<close> has.
\<close>

fun add_chunks ::
  "(string \<Rightarrow> string) \<Rightarrow> py_record \<Rightarrow> nat \<Rightarrow> nat \<Rightarrow> pyval list \<Rightarrow> chunk list \<Rightarrow> py_error + chunk list" where
  "add_chunks sha256_hex r i j [] chunks = Inr chunks"
| "add_chunks sha256_hex r i j (chunk_text # rest) chunks =
     (case chunk_text of
        POther ty rendering n \<Rightarrow> Inl (attribute_error ty ''encode'')
      | PStr t \<Rightarrow>
          (case r of
             RValue v \<Rightarrow> Inl (attribute_error (py_type_name v) ''get'')
           | RDict d \<Rightarrow>
               add_chunks sha256_hex r i (Suc j) rest
                 (chunks @
                  [\<lparr>content = t,
                    hash = sha256_hex t,
                    index = length chunks,
                    metadata =
                      \<lparr>record_index = i,
                       chunk_index = j,
                       source_type = (case map_of d ''_source_type'' of
                                        Some v \<Rightarrow> v | None \<Rightarrow> PStr ''unknown''),
                       original_record = r\<rparr>\<rparr>])))"

text \<open>The outer loop \<open>for i, record in enumerate(data)\<close>.\<close>

fun create_chunks_loop ::
  "nat \<Rightarrow> file_processor \<Rightarrow> (string \<Rightarrow> string) \<Rightarrow> nat \<Rightarrow> py_record list \<Rightarrow> chunk list
   \<Rightarrow> (py_error + chunk list) option" where
  "create_chunks_loop fuel fp sha256_hex i [] chunks = Some (Inr chunks)"
| "create_chunks_loop fuel fp sha256_hex i (r # rest) chunks =
     (case split_value fuel fp (record_text r) of
        None \<Rightarrow> None
      | Some (Inl e) \<Rightarrow> Some (Inl e)
      | Some (Inr text_chunks) \<Rightarrow>
          (case add_chunks sha256_hex r i 0 text_chunks chunks of
             Inl e \<Rightarrow> Some (Inl e)
           | Inr chunks' \<Rightarrow> create_chunks_loop fuel fp sha256_hex (Suc i) rest chunks'))"

definition create_chunks ::
  "nat \<Rightarrow> file_processor \<Rightarrow> (string \<Rightarrow> string) \<Rightarrow> py_record list \<Rightarrow> string \<Rightarrow> string
   \<Rightarrow> (py_error + chunk list) option" where
  \<comment> \<open>\<open>_create_chunks(data, data_source_id, business_id)\<close>; \<open>sha256_hex\<close> is \<open>hashlib\<close>'s digest.\<close>
  "create_chunks fuel fp sha256_hex data data_source_id business_id =
     create_chunks_loop fuel fp sha256_hex 0 data []"

section \<open>The ingestion run: \<open>FileProcessor.process_file\<close>\<close>

definition lower_char :: "char \<Rightarrow> char" where
  "lower_char c =
     (case map_of (zip ''ABCDEFGHIJKLMNOPQRSTUVWXYZ'' ''abcdefghijklmnopqrstuvwxyz'') c of
        Some l \<Rightarrow> l | None \<Rightarrow> c)"

definition py_lower :: "string \<Rightarrow> string" where
  \<comment> \<open>\<open>s.lower()\<close> on ASCII text\<close>
  "py_lower s = map lower_char s"

datatype extractor = Excel | Csv | Json | Pdf | Text | Docx

datatype commit_site = StartCommit | ResultCommit | ErrorCommit

text \<open>
  The rows. Of a \<open>DataSource\<close> the run reads \<open>source_type\<close> and writes the status, the error
  text and the count; the timestamps it also writes come from the clock and are left out.
\<close>

record data_source =
  ds_source_type :: string
  processing_status :: string
  processing_error :: "string option"
  records_count :: nat

record data_chunk =
  data_source_id :: string
  business_id :: string
  dc_content :: string
  content_hash :: string
  dc_metadata :: chunk_metadata
  dc_chunk_index :: nat

record database =
  data_sources :: "string \<rightharpoonup> data_source"
  data_chunks :: "data_chunk list"

text \<open>
  What the processor reaches outside itself: \<open>hashlib\<close>, the file readers (pandas, PyPDF2,
  docx, \<open>open\<close>) behind the \<open>_process_*\<close> methods, the statements inside the \<open>try\<close> block of
  \<open>_index_chunks\<close> (a log call, with the call of the vector service left as a TODO), and the
  database session: \<open>lookup_error\<close> is what the query for the source raises, if anything, and
  \<open>commit_error\<close> what \<open>db.commit()\<close> raises, given which of the three commits of
  \<open>process_file\<close> it is (after the status is set to processing, after the rows are added, in
  the \<open>except\<close> block) and the rows it would write.
\<close>

record environment =
  sha256 :: "string \<Rightarrow> string"
  run_extractor :: "extractor \<Rightarrow> string \<Rightarrow> py_error + py_record list"
  try_index :: "chunk list \<Rightarrow> string \<Rightarrow> py_error + unit"
  lookup_error :: "py_error option"
  commit_error :: "commit_site \<Rightarrow> database \<Rightarrow> py_error option"

definition select_extractor :: "string \<Rightarrow> py_error + extractor" where
  \<comment> \<open>the \<open>if\<close>/\<open>elif\<close> chain on \<open>file_extension\<close>\<close>
  "select_extractor file_extension =
     (if file_extension = ''xlsx'' \<or> file_extension = ''xls'' then Inr Excel
      else if file_extension = ''csv'' then Inr Csv
      else if file_extension = ''json'' then Inr Json
      else if file_extension = ''pdf'' then Inr Pdf
      else if file_extension = ''txt'' then Inr Text
      else if file_extension = ''docx'' then Inr Docx
      else Inl (ValueError (''Unsupported file type: '' @ file_extension)))"

definition index_chunks :: "environment \<Rightarrow> chunk list \<Rightarrow> string \<Rightarrow> unit" where
  \<comment> \<open>\<open>_index_chunks\<close>: whatever the \<open>try\<close> block raises is logged and not raised again.\<close>
  "index_chunks env chunks dsid = (case try_index env chunks dsid of Inl e \<Rightarrow> () | Inr u \<Rightarrow> u)"

text \<open>
  The \<open>except\<close> block of \<open>process_file\<close>: the status and the error text are set on the row and
  committed, inside a \<open>try\<close> whose \<open>except: pass\<close> hides a failure of that commit. \<open>db\<close> holds
  the rows as last committed and \<open>ds\<close> the row of the source among them.
\<close>

definition mark_error ::
  "environment \<Rightarrow> database \<Rightarrow> string \<Rightarrow> data_source \<Rightarrow> py_error \<Rightarrow> database" where
  "mark_error env db dsid ds e =
     (let marked = db\<lparr>data_sources := (data_sources db)
                       (dsid \<mapsto> ds\<lparr>processing_status := ''error'',
                                    processing_error := Some (str_of_error e)\<rparr>)\<rparr>
      in case commit_error env ErrorCommit marked of
           None \<Rightarrow> marked
         | Some e' \<Rightarrow> db)"

definition chunk_row :: "string \<Rightarrow> string \<Rightarrow> chunk \<Rightarrow> data_chunk" where
  "chunk_row dsid biz c =
     \<lparr>data_source_id = dsid, business_id = biz, dc_content = content c,
      content_hash = hash c, dc_metadata = metadata c, dc_chunk_index = index c\<rparr>"

text \<open>
  \<open>process_file\<close>. The result pairs the returned flag with the rows as committed; \<open>None\<close>: the
  chunking loop is still running after \<open>fuel\<close> iterations. A commit that fails writes
  nothing: the session rolls the transaction back, which drops the rows added in it and
  reads the row of the source again as it is stored. When the query for the source raises,
  the \<open>except\<close> block finds no \<open>data_source\<close> to mark, and its \<open>except: pass\<close> hides that too.
  Creating the session does not reach the database and is taken to succeed.
\<close>

definition process_file ::
  "nat \<Rightarrow> file_processor \<Rightarrow> environment \<Rightarrow> database \<Rightarrow> string \<Rightarrow> string \<Rightarrow> string
   \<Rightarrow> (bool \<times> database) option" where
  "process_file fuel fp env db dsid file_path biz =
     (case lookup_error env of
        Some e \<Rightarrow> Some (False, db)
      | None \<Rightarrow>
     (case data_sources db dsid of
        None \<Rightarrow> Some (False, db)
      | Some ds0 \<Rightarrow>
          (let ds = ds0\<lparr>processing_status := ''processing''\<rparr>;
               db1 = db\<lparr>data_sources := (data_sources db)(dsid \<mapsto> ds)\<rparr>
           in case commit_error env StartCommit db1 of
                Some e \<Rightarrow> Some (False, mark_error env db dsid ds0 e)
              | None \<Rightarrow>
           (case select_extractor (py_lower (ds_source_type ds)) of
                Inl e \<Rightarrow> Some (False, mark_error env db1 dsid ds e)
              | Inr x \<Rightarrow>
                  (case run_extractor env x file_path of
                     Inl e \<Rightarrow> Some (False, mark_error env db1 dsid ds e)
                   | Inr data \<Rightarrow>
                       (case create_chunks fuel fp (sha256 env) data dsid biz of
                          None \<Rightarrow> None
                        | Some (Inl e) \<Rightarrow> Some (False, mark_error env db1 dsid ds e)
                        | Some (Inr chunks) \<Rightarrow>
                            (let db2 = db1
                                   \<lparr>data_chunks := data_chunks db1 @ map (chunk_row dsid biz) chunks,
                                    data_sources := (data_sources db1)
                                      (dsid \<mapsto> ds\<lparr>processing_status := ''completed'',
                                                   records_count := length chunks\<rparr>)\<rparr>
                             in case commit_error env ResultCommit db2 of
                                  Some e \<Rightarrow> Some (False, mark_error env db1 dsid ds e)
                                | None \<Rightarrow>
                                    (let u = index_chunks env chunks dsid
                                     in Some (True, db2)))))))))"

section \<open>The vector service: \<open>VectorService.search_similar\<close>\<close>

datatype json =
  JNull | JBool bool | JInt int | JStr string | JArr "json list" | JObj "(string \<times> json) list"

record scored_point =
  payload :: "(string \<times> json) list"
  score :: real

record search_hit =
  sr_content :: json
  sr_score :: real
  sr_data_source_id :: json
  sr_metadata :: json

text \<open>
  The OpenAI embedding call and the Qdrant client. \<open>search\<close> receives the query vector, the
  value that the filter \<open>must\<close> match under the key \<open>metadata.business_id\<close>, the limit and the
  score threshold.
\<close>

record vector_client =
  generate_embedding :: "string \<Rightarrow> py_error + real list"
  search :: "real list \<Rightarrow> string \<Rightarrow> int \<Rightarrow> real \<Rightarrow> py_error + scored_point list"

definition format_hit :: "scored_point \<Rightarrow> py_error + search_hit" where
  \<comment> \<open>the dict built for one hit; a missing payload key is a \<open>KeyError\<close>\<close>
  "format_hit h =
     (case map_of (payload h) ''content'' of
        None \<Rightarrow> Inl (KeyError ''content'')
      | Some c \<Rightarrow>
          (case map_of (payload h) ''data_source_id'' of
             None \<Rightarrow> Inl (KeyError ''data_source_id'')
           | Some d \<Rightarrow>
               (case map_of (payload h) ''metadata'' of
                  None \<Rightarrow> Inl (KeyError ''metadata'')
                | Some m \<Rightarrow>
                    Inr \<lparr>sr_content = c, sr_score = score h,
                         sr_data_source_id = d, sr_metadata = m\<rparr>)))"

fun format_results :: "scored_point list \<Rightarrow> search_hit list \<Rightarrow> py_error + search_hit list" where
  \<comment> \<open>\<open>for hit in search_result: results.append(...)\<close>\<close>
  "format_results [] results = Inr results"
| "format_results (h # hs) results =
     (case format_hit h of
        Inl e \<Rightarrow> Inl e
      | Inr r \<Rightarrow> format_results hs (results @ [r]))"

definition search_similar ::
  "vector_client \<Rightarrow> string \<Rightarrow> string \<Rightarrow> int \<Rightarrow> real \<Rightarrow> py_error + search_hit list" where
  "search_similar vc query biz limit score_threshold =
     (case generate_embedding vc query of
        Inl e \<Rightarrow> Inl e
      | Inr query_embedding \<Rightarrow>
          (case search vc query_embedding biz limit score_threshold of
             Inl e \<Rightarrow> Inl e
           | Inr search_result \<Rightarrow> format_results search_result []))"

definition metadata_business_id :: "json \<Rightarrow> json option" where
  \<comment> \<open>the entry that the filter key \<open>metadata.business_id\<close> addresses\<close>
  "metadata_business_id m = (case m of JObj kv \<Rightarrow> map_of kv ''business_id'' | _ \<Rightarrow> None)"

section \<open>The protocol server: \<open>MCPServer\<close>\<close>

text \<open>
  A request is the \<open>dict\<close> that \<open>json.loads\<close> gives, a response the \<open>dict\<close> that is sent
  back; both are lists of entries in insertion order.
\<close>

type_synonym response = "(string \<times> json) list"

definition data_get :: "(string \<times> json) list \<Rightarrow> string \<Rightarrow> json" where
  \<comment> \<open>\<open>data.get(key)\<close>\<close>
  "data_get data key = (case map_of data key of None \<Rightarrow> JNull | Some v \<Rightarrow> v)"

fun truthy :: "json \<Rightarrow> bool" where
  "truthy JNull = False"
| "truthy (JBool b) = b"
| "truthy (JInt n) = (n \<noteq> 0)"
| "truthy (JStr s) = (s \<noteq> [])"
| "truthy (JArr xs) = (xs \<noteq> [])"
| "truthy (JObj kv) = (kv \<noteq> [])"

fun type_name :: "json \<Rightarrow> string" where
  "type_name JNull = ''NoneType''"
| "type_name (JBool b) = ''bool''"
| "type_name (JInt n) = ''int''"
| "type_name (JStr s) = ''str''"
| "type_name (JArr xs) = ''list''"
| "type_name (JObj kv) = ''dict''"

definition no_attribute :: "json \<Rightarrow> string \<Rightarrow> py_error" where
  "no_attribute v a = attribute_error (type_name v) a"

definition py_in :: "json \<Rightarrow> string list \<Rightarrow> bool" where
  \<comment> \<open>\<open>database_id in self.agent_bindings[connection_id]\<close>: the list holds strings\<close>
  "py_in v ids = (case v of JStr s \<Rightarrow> s \<in> set ids | _ \<Rightarrow> False)"

text \<open>
  \<open>DatabaseQueryService\<close> and \<open>VectorSearchService\<close>: the server only calls them. Of a binding
  it reads \<open>database_id\<close>, of a database \<open>id\<close>, \<open>name\<close>, \<open>description\<close> and
  \<open>schema_definition\<close>. \<open>str_of_value\<close> is Python's \<open>str\<close> on a request value, which the
  message for an unknown operation embeds.
\<close>

record binding =
  database_id :: string

record database_info =
  db_id :: string
  db_name :: json
  db_description :: json
  db_schema_definition :: json

record services =
  get_agent_bindings :: "json \<Rightarrow> json \<Rightarrow> py_error + binding list"
  get_databases_info :: "string list \<Rightarrow> py_error + database_info list"
  execute_structured_query :: "json \<Rightarrow> json \<Rightarrow> py_error + json"
  get_database_schema :: "json \<Rightarrow> py_error + json"
  execute_raw_query :: "json \<Rightarrow> string \<Rightarrow> py_error + json"
  semantic_search :: "json \<Rightarrow> json list \<Rightarrow> json \<Rightarrow> py_error + json"
  str_of_value :: "json \<Rightarrow> string"

record mcp_server =
  connections :: "string set"
  agent_bindings :: "string \<rightharpoonup> string list"

definition MCPServer_init :: mcp_server where
  \<comment> \<open>\<open>MCPServer.__init__\<close>: no connection, no binding\<close>
  "MCPServer_init = \<lparr>connections = {}, agent_bindings = Map.empty\<rparr>"

definition error_response :: "string \<Rightarrow> response" where
  "error_response msg = [(''type'', JStr ''error''), (''error'', JStr msg)]"

definition send_welcome_message :: response where
  "send_welcome_message =
     [(''type'', JStr ''welcome''),
      (''server'', JStr ''AI Voice Agent MCP Server''),
      (''version'', JStr ''1.0.0''),
      (''capabilities'',
         JObj [(''database_query'', JBool True), (''vector_search'', JBool True),
               (''semantic_search'', JBool True), (''data_retrieval'', JBool True),
               (''schema_introspection'', JBool True)]),
      (''supported_operations'',
         JArr [JStr ''authenticate'', JStr ''list_databases'', JStr ''query_database'',
               JStr ''search_knowledge'', JStr ''get_schema'', JStr ''execute_query''])]"

definition handle_authenticate ::
  "services \<Rightarrow> mcp_server \<Rightarrow> (string \<times> json) list \<Rightarrow> string \<Rightarrow> py_error + mcp_server \<times> response" where
  "handle_authenticate svc s data connection_id =
     (let agent_id = data_get data ''agent_id'';
          business = data_get data ''business_id''
      in if \<not> truthy agent_id \<or> \<not> truthy business
         then Inr (s, error_response ''Missing agent_id or business_id'')
         else (case get_agent_bindings svc agent_id business of
                 Inl e \<Rightarrow> Inl e
               | Inr bindings \<Rightarrow>
                   (let ids = map database_id bindings
                    in Inr (s\<lparr>agent_bindings := (agent_bindings s)(connection_id \<mapsto> ids)\<rparr>,
                            [(''type'', JStr ''auth_success''),
                             (''agent_id'', agent_id),
                             (''available_databases'', JInt (int (length ids)))]))))"

definition handle_list_databases ::
  "services \<Rightarrow> mcp_server \<Rightarrow> (string \<times> json) list \<Rightarrow> string \<Rightarrow> py_error + response" where
  "handle_list_databases svc s data connection_id =
     (case agent_bindings s connection_id of
        None \<Rightarrow> Inr (error_response ''Not authenticated'')
      | Some database_ids \<Rightarrow>
          (case get_databases_info svc database_ids of
             Inl e \<Rightarrow> Inl e
           | Inr databases \<Rightarrow>
               Inr [(''type'', JStr ''database_list''),
                    (''databases'',
                       JArr (map (\<lambda>db. JObj [(''id'', JStr (db_id db)),
                                              (''name'', db_name db),
                                              (''description'', db_description db),
                                              (''schema'', db_schema_definition db)])
                               databases))]))"

definition handle_query_database ::
  "services \<Rightarrow> mcp_server \<Rightarrow> (string \<times> json) list \<Rightarrow> string \<Rightarrow> response" where
  "handle_query_database svc s data connection_id =
     (case agent_bindings s connection_id of
        None \<Rightarrow> error_response ''Not authenticated''
      | Some ids \<Rightarrow>
          (let dbid = data_get data ''database_id'';
               query = data_get data ''query''
           in if \<not> py_in dbid ids then error_response ''Access denied to this database''
              else (case execute_structured_query svc dbid query of
                      Inr results \<Rightarrow>
                        [(''type'', JStr ''query_result''),
                         (''database_id'', dbid),
                         (''results'', results)]
                    | Inl e \<Rightarrow>
                        error_response (''Query execution failed: '' @ str_of_error e))))"

definition handle_search_knowledge ::
  "services \<Rightarrow> mcp_server \<Rightarrow> (string \<times> json) list \<Rightarrow> string \<Rightarrow> response" where
  "handle_search_knowledge svc s data connection_id =
     (case agent_bindings s connection_id of
        None \<Rightarrow> error_response ''Not authenticated''
      | Some ids \<Rightarrow>
          (let query_text = data_get data ''query'';
               dbid = data_get data ''database_id'';
               limit = (case map_of data ''limit'' of None \<Rightarrow> JInt 5 | Some v \<Rightarrow> v)
           in if truthy dbid \<and> \<not> py_in dbid ids
              then error_response ''Access denied to this database''
              else (let database_ids = (if truthy dbid then [dbid] else map JStr ids)
                    in case semantic_search svc query_text database_ids limit of
                         Inr results \<Rightarrow>
                           [(''type'', JStr ''search_result''),
                            (''query'', query_text),
                            (''results'', results)]
                       | Inl e \<Rightarrow> error_response (''Search failed: '' @ str_of_error e))))"

definition handle_get_schema ::
  "services \<Rightarrow> mcp_server \<Rightarrow> (string \<times> json) list \<Rightarrow> string \<Rightarrow> response" where
  "handle_get_schema svc s data connection_id =
     (case agent_bindings s connection_id of
        None \<Rightarrow> error_response ''Not authenticated''
      | Some ids \<Rightarrow>
          (let dbid = data_get data ''database_id''
           in if \<not> py_in dbid ids then error_response ''Access denied to this database''
              else (case get_database_schema svc dbid of
                      Inr schema \<Rightarrow>
                        [(''type'', JStr ''schema_info''),
                         (''database_id'', dbid),
                         (''schema'', schema)]
                    | Inl e \<Rightarrow>
                        error_response (''Schema retrieval failed: '' @ str_of_error e))))"

definition handle_execute_query ::
  "services \<Rightarrow> mcp_server \<Rightarrow> (string \<times> json) list \<Rightarrow> string \<Rightarrow> response" where
  \<comment> \<open>\<open>sql_query.strip()\<close> raises inside the \<open>try\<close> when \<open>sql\<close> is not a string.\<close>
  "handle_execute_query svc s data connection_id =
     (case agent_bindings s connection_id of
        None \<Rightarrow> error_response ''Not authenticated''
      | Some ids \<Rightarrow>
          (let dbid = data_get data ''database_id'';
               sql_query = data_get data ''sql''
           in if \<not> py_in dbid ids then error_response ''Access denied to this database''
              else (case sql_query of
                      JStr sql \<Rightarrow>
                        (if \<not> py_startswith (py_upper (py_strip sql)) ''SELECT''
                         then error_response ''Only SELECT queries are allowed''
                         else (case execute_raw_query svc dbid sql of
                                 Inr results \<Rightarrow>
                                   [(''type'', JStr ''sql_result''),
                                    (''database_id'', dbid),
                                    (''query'', sql_query),
                                    (''results'', results)]
                               | Inl e \<Rightarrow>
                                   error_response (''SQL execution failed: '' @ str_of_error e)))
                    | v \<Rightarrow>
                        error_response
                          (''SQL execution failed: '' @ str_of_error (no_attribute v ''strip'')))))"

definition process_operation ::
  "services \<Rightarrow> mcp_server \<Rightarrow> (string \<times> json) list \<Rightarrow> string \<Rightarrow> py_error + mcp_server \<times> response" where
  "process_operation svc s data connection_id =
     (let operation = data_get data ''operation''
      in if operation = JStr ''authenticate'' then handle_authenticate svc s data connection_id
         else if operation = JStr ''list_databases'' then
           (case handle_list_databases svc s data connection_id of
              Inl e \<Rightarrow> Inl e | Inr r \<Rightarrow> Inr (s, r))
         else if operation = JStr ''query_database'' then
           Inr (s, handle_query_database svc s data connection_id)
         else if operation = JStr ''search_knowledge'' then
           Inr (s, handle_search_knowledge svc s data connection_id)
         else if operation = JStr ''get_schema'' then
           Inr (s, handle_get_schema svc s data connection_id)
         else if operation = JStr ''execute_query'' then
           Inr (s, handle_execute_query svc s data connection_id)
         else Inr (s, error_response (''Unknown operation: '' @ str_of_value svc operation)))"

text \<open>
  \<open>handle_message\<close> takes what \<open>json.loads\<close> makes of the frame: \<open>None\<close> is a
  \<open>JSONDecodeError\<close>. It returns the server and the frame sent back. A value that is not a
  \<open>dict\<close> has no \<open>get\<close>, which the general \<open>except\<close> catches, as it does whatever
  \<open>process_operation\<close> raises.
\<close>

definition handle_message ::
  "services \<Rightarrow> mcp_server \<Rightarrow> string \<Rightarrow> json option \<Rightarrow> mcp_server \<times> response" where
  "handle_message svc s connection_id message =
     (case message of
        None \<Rightarrow> (s, error_response ''Invalid JSON format'')
      | Some (JObj data) \<Rightarrow>
          (let request_id = data_get data ''request_id''
           in case process_operation svc s data connection_id of
                Inr (s', response) \<Rightarrow> (s', AList.update ''request_id'' request_id response)
              | Inl e \<Rightarrow> (s, error_response (''Internal server error: '' @ str_of_error e)))
      | Some v \<Rightarrow>
          (s, error_response
                (''Internal server error: '' @ str_of_error (no_attribute v ''get''))))"

text \<open>
  \<open>handle_connection\<close>: the connection is registered, greeted, served frame by frame until
  the peer closes it (the list of frames ends), and unregistered: the \<open>finally\<close> block
  deletes its entry of \<open>connections\<close> and nothing else. The connection id is
  \<open>conn_\<close> followed by \<open>id(websocket)\<close>, the address of the socket object, which is
  unique among the objects alive at the same time and given out again once an object has
  been freed; it is an argument here.
\<close>

fun receive_loop ::
  "services \<Rightarrow> mcp_server \<Rightarrow> string \<Rightarrow> json option list \<Rightarrow> mcp_server \<times> response list" where
  "receive_loop svc s connection_id [] = (s, [])"
| "receive_loop svc s connection_id (message # rest) =
     (let (s', sent) = handle_message svc s connection_id message;
          (s'', more) = receive_loop svc s' connection_id rest
      in (s'', sent # more))"

definition handle_connection ::
  "services \<Rightarrow> mcp_server \<Rightarrow> string \<Rightarrow> json option list \<Rightarrow> mcp_server \<times> response list" where
  "handle_connection svc s connection_id messages =
     (let s1 = s\<lparr>connections := insert connection_id (connections s)\<rparr>;
          (s2, sent) = receive_loop svc s1 connection_id messages
      in (s2\<lparr>connections := connections s2 - {connection_id}\<rparr>, send_welcome_message # sent))"

definition point_business_id :: "scored_point \<Rightarrow> json option" where
  \<comment> \<open>what a stored point holds under the filter key \<open>metadata.business_id\<close>\<close>
  "point_business_id p =
     (case map_of (payload p) ''metadata'' of
        None \<Rightarrow> None
      | Some m \<Rightarrow> metadata_business_id m)"

section \<open>Concrete inputs\<close>

text \<open>A text of 1001 characters whose only space is at position 200.\<close>

definition stalling_text :: string where
  "stalling_text = replicate 200 (CHR ''a'') @ CHR '' '' # replicate 800 (CHR ''a'')"

text \<open>
  Three records as the JSON reader gives them, an environment whose index step fails as soon
  as there is a second chunk and whose database works, and a database with two pending
  sources.
\<close>

definition sample_records :: "py_record list" where
  "sample_records =
     [RDict [(''content'', PStr ''first''), (''_source_type'', PStr ''json'')],
      RDict [(''name'', PStr ''Ada''), (''age'', POther ''int'' ''36'' None), (''_source_type'', PStr ''json'')],
      RDict [(''content'', PStr ''third'')]]"

definition sample_environment :: environment where
  "sample_environment =
     \<lparr>sha256 = (\<lambda>s. ''sha256:'' @ s),
      run_extractor = (\<lambda>x path. if x = Json then Inr sample_records
                                 else Inl (ValueError ''cannot read file'')),
      try_index = (\<lambda>chunks dsid. if length chunks < 2 then Inr ()
                                  else Inl (UpstreamError ''IndexUpstreamError: chunk 2'')),
      lookup_error = None,
      commit_error = (\<lambda>site rows. None)\<rparr>"

text \<open>The same, with a database that takes the first commit and refuses the later ones.\<close>

definition refusing_environment :: environment where
  "refusing_environment =
     sample_environment
       \<lparr>commit_error := (\<lambda>site rows. if site = StartCommit then None
                                       else Some (UpstreamError ''connection lost''))\<rparr>"


definition sample_database :: database where
  "sample_database =
     \<lparr>data_sources =
        [''ds1'' \<mapsto> \<lparr>ds_source_type = ''JSON'', processing_status = ''pending'',
                     processing_error = None, records_count = 0\<rparr>,
         ''ds2'' \<mapsto> \<lparr>ds_source_type = ''csv'', processing_status = ''pending'',
                     processing_error = None, records_count = 0\<rparr>],
      data_chunks = []\<rparr>"

text \<open>
  A collection with one point of business \<open>biz-A\<close> and one of business \<open>biz-B\<close>, an index
  that applies the filter it is given, and one that ignores it.
\<close>

definition sample_points :: "scored_point list" where
  "sample_points =
     [\<lparr>payload = [(''content'', JStr ''opening hours of A''),
                  (''data_source_id'', JStr ''ds-A''),
                  (''chunk_index'', JInt 0),
                  (''metadata'', JObj [(''business_id'', JStr ''biz-A'')])],
       score = 9 / 10\<rparr>,
      \<lparr>payload = [(''content'', JStr ''price list of B''),
                  (''data_source_id'', JStr ''ds-B''),
                  (''chunk_index'', JInt 0),
                  (''metadata'', JObj [(''business_id'', JStr ''biz-B'')])],
       score = 8 / 10\<rparr>]"

definition filtering_client :: vector_client where
  "filtering_client =
     \<lparr>generate_embedding = (\<lambda>text. Inr [1, 0]),
      search = (\<lambda>v biz limit threshold.
                  Inr (filter (\<lambda>p. point_business_id p = Some (JStr biz)) sample_points))\<rparr>"

definition unfiltered_client :: vector_client where
  "unfiltered_client =
     \<lparr>generate_embedding = (\<lambda>text. Inr [1, 0]),
      search = (\<lambda>v biz limit threshold. Inr sample_points)\<rparr>"

text \<open>
  Services that answer every call, services whose binding lookup fails, and services that
  know no database at all; a server with one connection that has not authenticated, and one
  whose connection is bound to \<open>db1\<close> and \<open>db2\<close>.
\<close>

definition sample_services :: services where
  "sample_services =
     \<lparr>get_agent_bindings = (\<lambda>agent biz. Inr [\<lparr>database_id = ''db1''\<rparr>, \<lparr>database_id = ''db2''\<rparr>]),
      get_databases_info = (\<lambda>ids. Inr []),
      execute_structured_query = (\<lambda>dbid query. Inr (JArr [JStr ''row''])),
      get_database_schema = (\<lambda>dbid. Inr JNull),
      execute_raw_query = (\<lambda>dbid sql. Inr (JObj [(''executed'', JStr sql)])),
      semantic_search = (\<lambda>query ids limit.
                           Inr (JObj [(''database_ids'', JArr ids), (''limit'', limit)])),
      str_of_value = (\<lambda>v. case v of JStr s \<Rightarrow> s | _ \<Rightarrow> ''None'')\<rparr>"

definition failing_services :: services where
  "failing_services =
     sample_services
       \<lparr>get_agent_bindings := (\<lambda>agent biz. Inl (UpstreamError ''database unavailable''))\<rparr>"

definition empty_services :: services where
  "empty_services =
     sample_services
       \<lparr>execute_structured_query := (\<lambda>dbid query. Inl (ValueError ''no such database'')),
        get_database_schema := (\<lambda>dbid. Inl (ValueError ''no such database''))\<rparr>"

definition fresh_server :: mcp_server where
  "fresh_server = \<lparr>connections = {''conn_1''}, agent_bindings = Map.empty\<rparr>"

definition bound_server :: mcp_server where
  "bound_server =
     \<lparr>connections = {''conn_1''}, agent_bindings = [''conn_1'' \<mapsto> [''db1'', ''db2'']]\<rparr>"

section \<open>The chunker on short and on stalling texts\<close>

lemma split_text_short:
  "int (length text) \<le> chunk_size fp \<Longrightarrow> split_text fuel fp text = Some [text]"
  by (simp add: split_text_def)

text \<open>
  C5. For a text no longer than the window, \<open>split\<close> should return one chunk equal to the
  text trimmed, and nothing when the trimmed text is empty. The early return of
  \<open>_split_text\<close> hands the text back as it is: \<open>'' a''\<close> keeps its leading space although
  its trimmed form is \<open>''a''\<close>, and the empty text comes back as one empty chunk. The loop
  below the early return strips every chunk and drops the empty ones.
\<close>

theorem split_text_short_not_trimmed:
  "split_text fuel FileProcessor_init '' a'' = Some ['' a'']
   \<and> py_strip '' a'' = ''a''
   \<and> split_text fuel FileProcessor_init [] = Some [[]]"
  by (simp add: split_text_def FileProcessor_init_def py_strip_def py_isspace_def)

lemma rfind_down_found:
  "a \<le> p \<Longrightarrow> p < a + k \<Longrightarrow> s ! p = c \<Longrightarrow> (\<forall>i. p < i \<and> i < a + k \<longrightarrow> s ! i \<noteq> c)
   \<Longrightarrow> rfind_down c s a k = int p"
proof (induction k)
  case 0
  then show ?case by simp
next
  case (Suc k)
  show ?case
  proof (cases "p = a + k")
    case True
    with Suc.prems show ?thesis by simp
  next
    case False
    with Suc.prems have below: "p < a + k" by simp
    from Suc.prems below have top: "s ! (a + k) \<noteq> c" by simp
    from Suc.prems have "\<forall>i. p < i \<and> i < a + k \<longrightarrow> s ! i \<noteq> c" by simp
    with Suc.IH Suc.prems below have "rfind_down c s a k = int p" by simp
    with top show ?thesis by simp
  qed
qed

lemma length_stalling_text: "length stalling_text = 1001"
  by (simp add: stalling_text_def)

lemma stalling_text_space: "stalling_text ! 200 = CHR '' ''"
  by (simp add: stalling_text_def nth_append)

lemma stalling_text_no_space: "200 < i \<Longrightarrow> i < 1001 \<Longrightarrow> stalling_text ! i \<noteq> CHR '' ''"
  by (simp add: stalling_text_def nth_append nth_Cons')

lemma rfind_stalling_text: "py_rfind stalling_text (CHR '' '') 0 1000 = 200"
proof -
  have "rfind_down (CHR '' '') stalling_text 0 1000 = int 200"
    by (rule rfind_down_found) (simp_all add: stalling_text_space stalling_text_no_space)
  then show ?thesis
    by (simp add: py_rfind_def norm_index_def length_stalling_text)
qed

text \<open>
  On \<open>stalling_text\<close> the first window ends at the space, position 200, and the next start
  is \<open>200 - 200 = 0\<close> again: every iteration begins where the one before began.
\<close>

lemma split_loop_stalls: "split_loop fuel FileProcessor_init stalling_text 0 chunks = None"
proof (induction fuel arbitrary: chunks)
  case 0
  show ?case by (simp add: length_stalling_text)
next
  case (Suc fuel)
  show ?case
    by (simp add: length_stalling_text rfind_stalling_text FileProcessor_init_def Let_def
        Suc.IH [unfolded FileProcessor_init_def])
qed

text \<open>
  C6. The chunking loop should terminate on every text, the next start being clamped so that
  it advances. \<open>_split_text\<close> has no such clamp: the next start is \<open>end - overlap_size\<close>
  whatever the current start is. On \<open>stalling_text\<close>, with the default sizes, the loop is
  still running after any number of iterations.
\<close>

theorem split_text_never_returns:
  "split_text fuel FileProcessor_init stalling_text = None"
  using split_loop_stalls [of fuel "[]"]
  by (simp add: split_text_def length_stalling_text FileProcessor_init_def)

section \<open>Chunk ordinals\<close>

lemma add_chunks_index:
  "add_chunks h r i j ts chunks = Inr chunks' \<Longrightarrow> \<forall>k<length chunks. index (chunks ! k) = k
   \<Longrightarrow> \<forall>k<length chunks'. index (chunks' ! k) = k"
proof (induction ts arbitrary: j chunks)
  case Nil
  then show ?case by simp
next
  case (Cons t ts)
  show ?case
  proof (cases t)
    case (PStr chunk_text)
    with Cons show ?thesis
      by (cases r) (auto simp: nth_append split: if_splits)
  next
    case (POther ty rendering n)
    with Cons.prems show ?thesis by simp
  qed
qed

lemma create_chunks_loop_index:
  "create_chunks_loop fuel fp h i data chunks = Some (Inr chunks')
   \<Longrightarrow> \<forall>k<length chunks. index (chunks ! k) = k
   \<Longrightarrow> \<forall>k<length chunks'. index (chunks' ! k) = k"
proof (induction data arbitrary: i chunks)
  case Nil
  then show ?case by simp
next
  case (Cons r rest)
  then show ?case
    by (auto split: sum.splits option.splits dest: add_chunks_index)
qed

text \<open>
  C9. In the list that \<open>_create_chunks\<close> returns, the \<open>index\<close> of every chunk is its
  position in the list: the ordinals start at 0 and are contiguous across all records.
\<close>

theorem create_chunks_index_is_position:
  assumes "create_chunks fuel fp h data dsid biz = Some (Inr chunks)"
    and "k < length chunks"
  shows "index (chunks ! k) = k"
  using create_chunks_loop_index [of fuel fp h 0 data "[]" chunks] assms
  by (simp add: create_chunks_def)

lemma sample_chunks:
  "create_chunks 0 FileProcessor_init (sha256 sample_environment) sample_records ''ds1'' ''biz1''
   = Some (Inr
      [\<lparr>content = ''first'', hash = ''sha256:first'', index = 0,
        metadata = \<lparr>record_index = 0, chunk_index = 0, source_type = PStr ''json'',
                    original_record = sample_records ! 0\<rparr>\<rparr>,
       \<lparr>content = ''name: Ada'' @ [CHR 0x0A] @ ''age: 36'',
        hash = ''sha256:name: Ada'' @ [CHR 0x0A] @ ''age: 36'', index = 1,
        metadata = \<lparr>record_index = 1, chunk_index = 0, source_type = PStr ''json'',
                    original_record = sample_records ! 1\<rparr>\<rparr>,
       \<lparr>content = ''third'', hash = ''sha256:third'', index = 2,
        metadata = \<lparr>record_index = 2, chunk_index = 0, source_type = PStr ''unknown'',
                    original_record = sample_records ! 2\<rparr>\<rparr>])"
  by (simp add: create_chunks_def sample_records_def sample_environment_def record_text_def
      split_value_def split_text_def FileProcessor_init_def py_join_def py_startswith_def)

theorem create_chunks_index_is_position_witness:
  "\<exists>chunks.
     create_chunks 0 FileProcessor_init (sha256 sample_environment) sample_records ''ds1'' ''biz1''
       = Some (Inr chunks)
     \<and> 2 < length chunks \<and> index (chunks ! 2) = 2"
proof -
  let ?chunks = "case create_chunks 0 FileProcessor_init (sha256 sample_environment)
                        sample_records ''ds1'' ''biz1'' of
                   Some (Inr chunks) \<Rightarrow> chunks | _ \<Rightarrow> []"
  have run: "create_chunks 0 FileProcessor_init (sha256 sample_environment) sample_records
               ''ds1'' ''biz1'' = Some (Inr ?chunks)"
    by (simp add: sample_chunks)
  have len: "2 < length ?chunks"
    by (simp add: sample_chunks)
  from create_chunks_index_is_position [OF run len] run len
  show ?thesis by blast
qed

section \<open>Ingestion runs\<close>









text \<open>
  When the database refuses the commit of the rows and the commit of the \<open>except\<close> block as
  well, the run returns \<open>False\<close> and leaves the source in the \<open>processing\<close> state with no error
  recorded and no chunk row.
\<close>

lemma sample_run_fails_silently:
  "process_file 0 FileProcessor_init refusing_environment sample_database
     ''ds1'' ''/uploads/f.json'' ''biz1''
   = Some (False,
       sample_database\<lparr>data_sources := (data_sources sample_database)
            (''ds1'' \<mapsto> \<lparr>ds_source_type = ''JSON'', processing_status = ''processing'',
                         processing_error = None, records_count = 0\<rparr>)\<rparr>)"
proof -
  have run: "run_extractor refusing_environment Json ''/uploads/f.json'' = Inr sample_records"
    by (simp add: refusing_environment_def sample_environment_def)
  have sel: "select_extractor (py_lower ''JSON'') = Inr Json"
    by (simp add: select_extractor_def py_lower_def lower_char_def)
  have src: "data_sources sample_database ''ds1'' =
      Some \<lparr>ds_source_type = ''JSON'', processing_status = ''pending'',
            processing_error = None, records_count = 0\<rparr>"
    by (simp add: sample_database_def)
  have sha: "sha256 refusing_environment = sha256 sample_environment"
    by (simp add: refusing_environment_def)
  have com: "lookup_error refusing_environment = None"
    "commit_error refusing_environment StartCommit rows = None"
    "commit_error refusing_environment ResultCommit rows = Some (UpstreamError ''connection lost'')"
    "commit_error refusing_environment ErrorCommit rows = Some (UpstreamError ''connection lost'')"
    for rows
    by (simp_all add: refusing_environment_def sample_environment_def)
  show ?thesis
    by (simp add: process_file_def Let_def run sel src sha sample_chunks com mark_error_def)
qed



section \<open>Semantic search\<close>

lemma format_hit_business:
  "format_hit h = Inr r \<Longrightarrow> metadata_business_id (sr_metadata r) = point_business_id h"
  by (auto simp: format_hit_def point_business_id_def split: option.splits)

lemma format_results_map:
  "format_results hs acc = Inr rs \<Longrightarrow> \<exists>rs'. rs = acc @ rs' \<and> map format_hit hs = map Inr rs'"
proof (induction hs arbitrary: acc)
  case Nil
  then show ?case by simp
next
  case (Cons h hs)
  then obtain r where r: "format_hit h = Inr r" and rest: "format_results hs (acc @ [r]) = Inr rs"
    by (auto split: sum.splits)
  from Cons.IH [OF rest] obtain rs' where "rs = (acc @ [r]) @ rs'" "map format_hit hs = map Inr rs'"
    by blast
  with r show ?case by simp
qed

lemma formatted_business:
  assumes "map format_hit hits = map Inr results"
    and "\<forall>h\<in>set hits. point_business_id h = Some b"
  shows "\<forall>r\<in>set results. metadata_business_id (sr_metadata r) = Some b"
proof
  fix r assume "r \<in> set results"
  then obtain i where i: "i < length results" "results ! i = r"
    by (auto simp: in_set_conv_nth)
  from assms(1) have len: "length hits = length results"
    by (rule map_eq_imp_length_eq)
  from assms(1) i len have "format_hit (hits ! i) = Inr r"
    by (metis nth_map)
  moreover from i len assms(2) have "point_business_id (hits ! i) = Some b"
    by simp
  ultimately show "metadata_business_id (sr_metadata r) = Some b"
    by (simp add: format_hit_business)
qed

text \<open>
  C1, amended. \<open>search_similar\<close> hands the business id to the index as the filter value and
  returns the hits of the index, each formatted, in the order of the index: nothing is
  filtered afterwards. So the results belong to the requesting business when every hit that
  the index returned does.
\<close>

theorem search_similar_returns_index_hits:
  assumes "search_similar vc query biz limit threshold = Inr results"
  shows "\<exists>embedding hits.
           generate_embedding vc query = Inr embedding
           \<and> search vc embedding biz limit threshold = Inr hits
           \<and> map format_hit hits = map Inr results
           \<and> ((\<forall>h\<in>set hits. point_business_id h = Some (JStr biz))
                \<longrightarrow> (\<forall>r\<in>set results. metadata_business_id (sr_metadata r) = Some (JStr biz)))"
proof -
  from assms obtain embedding hits where
    e: "generate_embedding vc query = Inr embedding" and
    h: "search vc embedding biz limit threshold = Inr hits" and
    f: "format_results hits [] = Inr results"
    by (auto simp: search_similar_def split: sum.splits)
  from format_results_map [OF f] have m: "map format_hit hits = map Inr results"
    by simp
  with e h formatted_business [OF m] show ?thesis
    by blast
qed


text \<open>
  C1, as stated: no result should belong to another business even if the index query omits
  the filter. With an index that ignores the filter, a search for \<open>biz-A\<close> returns the
  point of \<open>biz-B\<close> as its second result.
\<close>

theorem search_similar_foreign_hit_counterexample:
  "search_similar unfiltered_client ''hours'' ''biz-A'' 10 (7 / 10) =
     Inr [\<lparr>sr_content = JStr ''opening hours of A'', sr_score = 9 / 10,
           sr_data_source_id = JStr ''ds-A'',
           sr_metadata = JObj [(''business_id'', JStr ''biz-A'')]\<rparr>,
          \<lparr>sr_content = JStr ''price list of B'', sr_score = 8 / 10,
           sr_data_source_id = JStr ''ds-B'',
           sr_metadata = JObj [(''business_id'', JStr ''biz-B'')]\<rparr>]
   \<and> metadata_business_id (JObj [(''business_id'', JStr ''biz-B'')]) = Some (JStr ''biz-B'')"
  by (simp add: search_similar_def unfiltered_client_def sample_points_def format_hit_def
      metadata_business_id_def)

lemma filtering_run:
  "search_similar filtering_client ''hours'' ''biz-A'' 10 (7 / 10) =
     Inr [\<lparr>sr_content = JStr ''opening hours of A'', sr_score = 9 / 10,
           sr_data_source_id = JStr ''ds-A'',
           sr_metadata = JObj [(''business_id'', JStr ''biz-A'')]\<rparr>]"
  by (simp add: search_similar_def filtering_client_def sample_points_def format_hit_def
      metadata_business_id_def point_business_id_def)

theorem search_similar_returns_index_hits_witness:
  "search_similar filtering_client ''hours'' ''biz-A'' 10 (7 / 10) =
     Inr [\<lparr>sr_content = JStr ''opening hours of A'', sr_score = 9 / 10,
           sr_data_source_id = JStr ''ds-A'',
           sr_metadata = JObj [(''business_id'', JStr ''biz-A'')]\<rparr>]
   \<and> (\<exists>embedding hits.
         generate_embedding filtering_client ''hours'' = Inr embedding
         \<and> search filtering_client embedding ''biz-A'' 10 (7 / 10) = Inr hits
         \<and> length hits = 1
         \<and> point_business_id (hits ! 0) = Some (JStr ''biz-A''))"
proof -
  from search_similar_returns_index_hits [OF filtering_run]
  obtain embedding hits where
    e: "generate_embedding filtering_client ''hours'' = Inr embedding" and
    h: "search filtering_client embedding ''biz-A'' 10 (7 / 10) = Inr hits"
    by blast
  from h have "hits = [sample_points ! 0]"
    by (simp add: filtering_client_def sample_points_def point_business_id_def
        metadata_business_id_def)
  then have "length hits = 1 \<and> point_business_id (hits ! 0) = Some (JStr ''biz-A'')"
    by (simp add: sample_points_def point_business_id_def metadata_business_id_def)
  with e h filtering_run show ?thesis by blast
qed


section \<open>The protocol server before and after authentication\<close>

lemma process_operation_unauthenticated:
  assumes "agent_bindings s cid = None"
    and "data_get data ''operation'' = JStr op"
    and "op \<in> {''list_databases'', ''query_database'', ''search_knowledge'', ''get_schema'',
               ''execute_query''}"
  shows "process_operation svc s data cid = Inr (s, error_response ''Not authenticated'')"
  using assms
  by (auto simp: process_operation_def handle_list_databases_def handle_query_database_def
      handle_search_knowledge_def handle_get_schema_def handle_execute_query_def)

text \<open>
  While the connection id is not a key of \<open>agent_bindings\<close>, each of \<open>list_databases\<close>,
  \<open>query_database\<close>, \<open>search_knowledge\<close>, \<open>get_schema\<close> and \<open>execute_query\<close> is answered
  with the error \<open>Not authenticated\<close> and with no data response; the server is unchanged and
  the connection goes on to serve the frames that follow.
\<close>

lemma unauthenticated_key_rejected:
  assumes "agent_bindings s cid = None"
    and "data_get data ''operation'' = JStr op"
    and "op \<in> {''list_databases'', ''query_database'', ''search_knowledge'', ''get_schema'',
               ''execute_query''}"
  shows "\<exists>sent.
           handle_message svc s cid (Some (JObj data)) = (s, sent)
           \<and> map_of sent ''type'' = Some (JStr ''error'')
           \<and> map_of sent ''error'' = Some (JStr ''Not authenticated'')
           \<and> receive_loop svc s cid (Some (JObj data) # rest) =
               (fst (receive_loop svc s cid rest), sent # snd (receive_loop svc s cid rest))"
proof -
  let ?sent = "AList.update ''request_id'' (data_get data ''request_id'')
                 (error_response ''Not authenticated'')"
  from process_operation_unauthenticated [OF assms]
  have h: "handle_message svc s cid (Some (JObj data)) = (s, ?sent)"
    by (simp add: handle_message_def)
  have t: "map_of ?sent ''type'' = Some (JStr ''error'')"
    by (simp add: update_conv' error_response_def)
  have e: "map_of ?sent ''error'' = Some (JStr ''Not authenticated'')"
    by (simp add: update_conv' error_response_def)
  from h have r: "receive_loop svc s cid (Some (JObj data) # rest) =
               (fst (receive_loop svc s cid rest), ?sent # snd (receive_loop svc s cid rest))"
    by (simp add: split_beta)
  from h t e r show ?thesis by blast
qed

lemma unauthenticated_key_rejected_on_fresh_server:
  "agent_bindings fresh_server ''conn_1'' = None
   \<and> (\<exists>sent.
        handle_message sample_services fresh_server ''conn_1''
          (Some (JObj [(''operation'', JStr ''list_databases''), (''request_id'', JStr ''r1'')]))
          = (fresh_server, sent)
        \<and> map_of sent ''type'' = Some (JStr ''error'')
        \<and> map_of sent ''error'' = Some (JStr ''Not authenticated''))"
proof -
  have a: "agent_bindings fresh_server ''conn_1'' = None"
    by (simp add: fresh_server_def)
  have b: "data_get [(''operation'', JStr ''list_databases''), (''request_id'', JStr ''r1'')]
             ''operation'' = JStr ''list_databases''"
    by (simp add: data_get_def)
  have c: "''list_databases'' \<in> {''list_databases'', ''query_database'', ''search_knowledge'',
             ''get_schema'', ''execute_query''}"
    by simp
  from unauthenticated_key_rejected [OF a b c, of sample_services "[]"] a
  show ?thesis by blast
qed

text \<open>
  A first connection authenticates and closes: it is no longer in \<open>connections\<close>, but its
  entry of \<open>agent_bindings\<close> stays.
\<close>

lemma first_connection:
  "handle_connection sample_services MCPServer_init ''conn_140''
     [Some (JObj [(''operation'', JStr ''authenticate''), (''agent_id'', JStr ''agent-1''),
                  (''business_id'', JStr ''biz-A''), (''request_id'', JStr ''r1'')])]
   = (\<lparr>connections = {}, agent_bindings = [''conn_140'' \<mapsto> [''db1'', ''db2'']]\<rparr>,
      [send_welcome_message,
       [(''type'', JStr ''auth_success''), (''agent_id'', JStr ''agent-1''),
        (''available_databases'', JInt 2), (''request_id'', JStr ''r1'')]])"
  by (simp add: handle_connection_def handle_message_def process_operation_def
      handle_authenticate_def data_get_def sample_services_def MCPServer_init_def Let_def)

text \<open>
  C3. A connection that has not completed \<open>authenticate\<close> should get the error
  \<open>Not authenticated\<close> for every other operation and never a data response. The handlers
  take a connection for authenticated when its id is a key of \<open>agent_bindings\<close>, and
  \<open>handle_connection\<close> never removes that key. A later connection whose socket object gets
  the address of a closed, authenticated one has the same id: its first frame,
  \<open>query_database\<close>, is answered with a \<open>query_result\<close> although it never authenticated.
\<close>

theorem reused_connection_id_served_without_authenticate:
  "connections (fst (handle_connection sample_services MCPServer_init ''conn_140''
     [Some (JObj [(''operation'', JStr ''authenticate''), (''agent_id'', JStr ''agent-1''),
                  (''business_id'', JStr ''biz-A''), (''request_id'', JStr ''r1'')])])) = {}
   \<and> snd (handle_connection sample_services
        (fst (handle_connection sample_services MCPServer_init ''conn_140''
           [Some (JObj [(''operation'', JStr ''authenticate''), (''agent_id'', JStr ''agent-1''),
                        (''business_id'', JStr ''biz-A''), (''request_id'', JStr ''r1'')])]))
        ''conn_140''
        [Some (JObj [(''operation'', JStr ''query_database''), (''database_id'', JStr ''db1''),
                     (''query'', JStr ''all orders''), (''request_id'', JStr ''r2'')])])
     = [send_welcome_message,
        [(''type'', JStr ''query_result''), (''database_id'', JStr ''db1''),
         (''results'', JArr [JStr ''row'']), (''request_id'', JStr ''r2'')]]"
  by (simp add: first_connection)
     (simp add: handle_connection_def handle_message_def process_operation_def
      handle_query_database_def data_get_def py_in_def sample_services_def Let_def)

lemma process_operation_query_denied:
  assumes "agent_bindings s cid = Some ids"
    and "data_get data ''operation'' = JStr ''query_database''"
    and "\<not> py_in (data_get data ''database_id'') ids"
  shows "process_operation svc s data cid =
           Inr (s, error_response ''Access denied to this database'')"
  using assms
  by (simp add: process_operation_def handle_query_database_def)

text \<open>
  C2. On an authenticated connection, \<open>query_database\<close> for a database id outside the
  connection's bindings is answered with \<open>Access denied to this database\<close>, and the answer
  is the same whatever the services know about that id.
\<close>

theorem query_database_denied_uniformly:
  assumes "agent_bindings s cid = Some ids"
    and "data_get data ''operation'' = JStr ''query_database''"
    and "\<not> py_in (data_get data ''database_id'') ids"
  shows "handle_query_database svc s data cid = error_response ''Access denied to this database''
         \<and> handle_message svc s cid (Some (JObj data)) =
             (s, AList.update ''request_id'' (data_get data ''request_id'')
                   (error_response ''Access denied to this database''))
         \<and> handle_message svc' s cid (Some (JObj data)) =
             handle_message svc s cid (Some (JObj data))"
  using assms process_operation_query_denied [OF assms, of svc]
    process_operation_query_denied [OF assms, of svc']
  by (simp add: handle_message_def handle_query_database_def)

theorem query_database_denied_uniformly_witness:
  "agent_bindings bound_server ''conn_1'' = Some [''db1'', ''db2'']
   \<and> execute_structured_query sample_services (JStr ''db3'') (JStr ''q'') = Inr (JArr [JStr ''row''])
   \<and> execute_structured_query empty_services (JStr ''db3'') (JStr ''q'')
       = Inl (ValueError ''no such database'')
   \<and> handle_message sample_services bound_server ''conn_1''
        (Some (JObj [(''operation'', JStr ''query_database''), (''database_id'', JStr ''db3''),
                     (''query'', JStr ''q''), (''request_id'', JInt 4)]))
       = (bound_server,
          [(''type'', JStr ''error''), (''error'', JStr ''Access denied to this database''),
           (''request_id'', JInt 4)])
   \<and> handle_message empty_services bound_server ''conn_1''
        (Some (JObj [(''operation'', JStr ''query_database''), (''database_id'', JStr ''db3''),
                     (''query'', JStr ''q''), (''request_id'', JInt 4)]))
       = handle_message sample_services bound_server ''conn_1''
        (Some (JObj [(''operation'', JStr ''query_database''), (''database_id'', JStr ''db3''),
                     (''query'', JStr ''q''), (''request_id'', JInt 4)]))"
proof -
  let ?data = "[(''operation'', JStr ''query_database''), (''database_id'', JStr ''db3''),
                (''query'', JStr ''q''), (''request_id'', JInt 4)]"
  have a: "agent_bindings bound_server ''conn_1'' = Some [''db1'', ''db2'']"
    by (simp add: bound_server_def)
  have b: "data_get ?data ''operation'' = JStr ''query_database''"
    by (simp add: data_get_def)
  have c: "\<not> py_in (data_get ?data ''database_id'') [''db1'', ''db2'']"
    by (simp add: data_get_def py_in_def)
  have d: "execute_structured_query sample_services (JStr ''db3'') (JStr ''q'') = Inr (JArr [JStr ''row''])"
    by (simp add: sample_services_def)
  have e: "execute_structured_query empty_services (JStr ''db3'') (JStr ''q'')
       = Inl (ValueError ''no such database'')"
    by (simp add: empty_services_def)
  have f: "data_get ?data ''request_id'' = JInt 4"
    by (simp add: data_get_def)
  from query_database_denied_uniformly [OF a b c, of sample_services empty_services] a d e
  show ?thesis
    by (simp add: f error_response_def)
qed

section \<open>Raw queries, request ids and the scope of a search\<close>

lemma execute_query_rejects_other_prefix:
  assumes "agent_bindings s cid = Some ids"
    and "py_in (data_get data ''database_id'') ids"
    and "data_get data ''sql'' = JStr sql"
    and "\<not> py_startswith (py_upper (py_strip sql)) ''SELECT''"
  shows "handle_execute_query svc s data cid = error_response ''Only SELECT queries are allowed''"
  using assms by (simp add: handle_execute_query_def)

lemma strip_stacked: "py_strip ''SELECT 1; DROP TABLE users'' = ''SELECT 1; DROP TABLE users''"
  by (simp add: py_strip_def py_isspace_def)

lemma upper_stacked:
  "py_upper ''SELECT 1; DROP TABLE users'' = ''SELECT 1; DROP TABLE USERS''"
  by (simp add: py_upper_def upper_char_def)

text \<open>
  C7. \<open>execute_query\<close> should reject every statement that is not a read-only retrieval,
  also a mutating statement appended to a \<open>SELECT\<close>. The check of \<open>handle_execute_query\<close>
  looks at the first six characters only: \<open>SELECT 1; DROP TABLE users\<close> is handed to
  \<open>execute_raw_query\<close> whole.
\<close>

theorem execute_query_passes_stacked_statement:
  "handle_execute_query sample_services bound_server
     [(''operation'', JStr ''execute_query''), (''database_id'', JStr ''db1''),
      (''sql'', JStr ''SELECT 1; DROP TABLE users'')] ''conn_1''
   = [(''type'', JStr ''sql_result''),
      (''database_id'', JStr ''db1''),
      (''query'', JStr ''SELECT 1; DROP TABLE users''),
      (''results'', JObj [(''executed'', JStr ''SELECT 1; DROP TABLE users'')])]"
  by (simp add: handle_execute_query_def bound_server_def data_get_def py_in_def
      strip_stacked upper_stacked py_startswith_def sample_services_def Let_def)

lemma returned_response_echoes_request_id:
  assumes "process_operation svc s data cid = Inr (s', response)"
  shows "map_of (snd (handle_message svc s cid (Some (JObj data)))) ''request_id''
         = Some (data_get data ''request_id'')"
  using assms by (simp add: handle_message_def update_conv')

text \<open>
  C8. Every response should echo the request id of its request. When the binding lookup of
  \<open>authenticate\<close> raises, \<open>handle_message\<close> answers through \<open>send_error\<close>, which has no
  request id to send: the request carried \<open>r1\<close>, the response has no \<open>request_id\<close> entry.
\<close>

theorem internal_error_drops_request_id:
  "handle_message failing_services fresh_server ''conn_1''
     (Some (JObj [(''operation'', JStr ''authenticate''), (''agent_id'', JStr ''agent-1''),
                  (''business_id'', JStr ''biz-A''), (''request_id'', JStr ''r1'')]))
   = (fresh_server,
      [(''type'', JStr ''error''),
       (''error'', JStr ''Internal server error: database unavailable'')])
   \<and> map_of [(''type'', JStr ''error''),
              (''error'', JStr ''Internal server error: database unavailable'')] ''request_id''
       = None"
  by (simp add: handle_message_def process_operation_def handle_authenticate_def data_get_def
      failing_services_def sample_services_def error_response_def)

text \<open>
  C10, as stated: a supplied database id restricts the search to that database. The test
  \<open>if database_id and ...\<close> treats an empty id as no id: with \<open>database_id\<close> supplied as the
  empty string the search runs over both bound databases.
\<close>

theorem search_knowledge_empty_id_counterexample:
  "map_of [(''operation'', JStr ''search_knowledge''), (''query'', JStr ''order status''),
           (''database_id'', JStr '''')] ''database_id'' = Some (JStr '''')
   \<and> handle_search_knowledge sample_services bound_server
       [(''operation'', JStr ''search_knowledge''), (''query'', JStr ''order status''),
        (''database_id'', JStr '''')] ''conn_1''
     = [(''type'', JStr ''search_result''),
        (''query'', JStr ''order status''),
        (''results'', JObj [(''database_ids'', JArr [JStr ''db1'', JStr ''db2'']),
                           (''limit'', JInt 5)])]"
  by (simp add: handle_search_knowledge_def bound_server_def data_get_def py_in_def
      sample_services_def)

text \<open>
  C10, amended. On an authenticated connection a \<open>search_knowledge\<close> request without a
  database id, or with one that Python takes for false, searches all bound databases; without
  a limit the limit is 5; a database id that Python takes for true is searched alone when it
  is bound and refused with \<open>Access denied to this database\<close> when it is not.
\<close>

theorem search_knowledge_scope:
  assumes "agent_bindings s cid = Some ids"
  shows "let dbid = data_get data ''database_id'';
             limit = (case map_of data ''limit'' of None \<Rightarrow> JInt 5 | Some v \<Rightarrow> v);
             reply = (\<lambda>database_ids.
                        case semantic_search svc (data_get data ''query'') database_ids limit of
                          Inr results \<Rightarrow>
                            [(''type'', JStr ''search_result''),
                             (''query'', data_get data ''query''),
                             (''results'', results)]
                        | Inl e \<Rightarrow> error_response (''Search failed: '' @ str_of_error e))
         in (map_of data ''database_id'' = None \<longrightarrow>
               handle_search_knowledge svc s data cid = reply (map JStr ids))
          \<and> (map_of data ''limit'' = None \<longrightarrow> limit = JInt 5)
          \<and> (\<not> truthy dbid \<longrightarrow>
               handle_search_knowledge svc s data cid = reply (map JStr ids))
          \<and> (truthy dbid \<and> py_in dbid ids \<longrightarrow>
               handle_search_knowledge svc s data cid = reply [dbid])
          \<and> (truthy dbid \<and> \<not> py_in dbid ids \<longrightarrow>
               handle_search_knowledge svc s data cid =
                 error_response ''Access denied to this database'')"
  using assms
  by (auto simp: handle_search_knowledge_def data_get_def Let_def
      split: option.splits sum.splits)

theorem search_knowledge_scope_witness:
  "agent_bindings bound_server ''conn_1'' = Some [''db1'', ''db2'']
   \<and> handle_search_knowledge sample_services bound_server
        [(''operation'', JStr ''search_knowledge''), (''query'', JStr ''order status'')] ''conn_1''
      = [(''type'', JStr ''search_result''),
         (''query'', JStr ''order status''),
         (''results'', JObj [(''database_ids'', JArr [JStr ''db1'', JStr ''db2'']),
                            (''limit'', JInt 5)])]"
proof -
  let ?data = "[(''operation'', JStr ''search_knowledge''), (''query'', JStr ''order status'')]"
  have a: "agent_bindings bound_server ''conn_1'' = Some [''db1'', ''db2'']"
    by (simp add: bound_server_def)
  have none: "map_of ?data ''database_id'' = None" "map_of ?data ''limit'' = None"
    by simp_all
  from search_knowledge_scope [OF a, of ?data sample_services] none
  have "handle_search_knowledge sample_services bound_server ?data ''conn_1'' =
          (case semantic_search sample_services (data_get ?data ''query'')
                  (map JStr [''db1'', ''db2'']) (JInt 5) of
             Inr results \<Rightarrow>
               [(''type'', JStr ''search_result''),
                (''query'', data_get ?data ''query''),
                (''results'', results)]
           | Inl e \<Rightarrow> error_response (''Search failed: '' @ str_of_error e))"
    by (simp add: Let_def)
  with a show ?thesis
    by (simp add: sample_services_def data_get_def)
qed

end
